theory Spec2Isabelle
  imports Main "HOL-Library.AList"
begin

section \<open>Python values shared by the four core modules\<close>

text \<open>
  Exceptions are values. Each constructor is a Python exception class the sources raise
  or catch by name; \<open>OtherException\<close> stands for any other subclass of
  \<^verbatim>\<open>Exception\<close> that a library call may raise. \<open>str_of\<close> is Python's
  \<^verbatim>\<open>str(e)\<close> for an exception built from one message.
\<close>

datatype pyerror =
    ValueError string
  | ImportError string
  | AttributeError string
  | IndexError string
  | FileNotFoundError string
  | NotADirectoryError string
  | OtherException string

fun str_of :: "pyerror \<Rightarrow> string" where
  "str_of (ValueError m) = m"
| "str_of (ImportError m) = m"
| "str_of (AttributeError m) = m"
| "str_of (IndexError m) = m"
| "str_of (FileNotFoundError m) = m"
| "str_of (NotADirectoryError m) = m"
| "str_of (OtherException m) = m"

text \<open>
  A decoded JSON value, as \<^verbatim>\<open>json.load\<close> returns it. A Python dict keeps its keys
  in insertion order, so a mapping is an association list (whose keys are distinct when
  it comes from a dict).
\<close>

datatype json =
    JNull
  | JBool bool
  | JNum int
  | JStr string
  | JList "json list"
  | JDict "(string \<times> json) list"

subsection \<open>String primitives\<close>

text \<open>\<^verbatim>\<open>s.startswith(p)\<close>.\<close>

definition startswith :: "string \<Rightarrow> string \<Rightarrow> bool" where
  "startswith s p = (take (length p) s = p)"

text \<open>
  \<^verbatim>\<open>s.split(sep)\<close>: the pieces of \<open>s\<close> between the occurrences of \<open>sep\<close>, found
  from the left and not overlapping. \<open>cur\<close> is the piece being read. Python raises
  ValueError for an empty separator.
\<close>

fun split_from :: "string \<Rightarrow> string \<Rightarrow> string \<Rightarrow> string list" where
  "split_from sep cur [] = [cur]"
| "split_from sep cur (c # cs) =
     (if sep \<noteq> [] \<and> startswith (c # cs) sep
      then cur # split_from sep [] (drop (length sep - 1) cs)
      else split_from sep (cur @ [c]) cs)"

definition str_split :: "string \<Rightarrow> string \<Rightarrow> pyerror + string list" where
  "str_split s sep =
     (if sep = [] then Inl (ValueError ''empty separator'') else Inr (split_from sep [] s))"

text \<open>\<^verbatim>\<open>xs[i]\<close> for a non-negative index: IndexError out of range.\<close>

definition index :: "'a list \<Rightarrow> nat \<Rightarrow> pyerror + 'a" where
  "index xs i = (if i < length xs then Inr (xs ! i) else Inl (IndexError ''list index out of range''))"

text \<open>
  \<^verbatim>\<open>s.lower()\<close> on the ASCII letters. No character outside ASCII lowers to a letter of
  a supported extension, so extension matching needs no more.
\<close>

definition lower_char :: "char \<Rightarrow> char" where
  "lower_char c =
     (case map_of (zip ''ABCDEFGHIJKLMNOPQRSTUVWXYZ'' ''abcdefghijklmnopqrstuvwxyz'') c of
        Some d \<Rightarrow> d
      | None \<Rightarrow> c)"

definition lower :: "string \<Rightarrow> string" where
  "lower s = map lower_char s"

text \<open>\<^verbatim>\<open>sep.join(xs)\<close>.\<close>

fun join :: "string \<Rightarrow> string list \<Rightarrow> string" where
  "join sep [] = []"
| "join sep [x] = x"
| "join sep (x # y # ys) = x @ sep @ join sep (y # ys)"

section \<open>Configuration loader (llm\_loader.py)\<close>

subsection \<open>Environment placeholders\<close>

text \<open>
  \<^verbatim>\<open>_resolve_env_value\<close>: a string that starts with \<^verbatim>\<open>ENV:\<close> is split at every
  \<^verbatim>\<open>ENV:\<close> and the piece at index 1 names the variable; \<^verbatim>\<open>os.getenv\<close> is a lookup
  in the environment \<open>env\<close>, \<open>None\<close> when the variable is unset. Any other value is
  returned as it is.
\<close>

definition resolve_env_value :: "(string \<rightharpoonup> string) \<Rightarrow> json \<Rightarrow> pyerror + json" where
  "resolve_env_value env v =
     (case v of
        JStr s \<Rightarrow>
          (if startswith s ''ENV:'' then
             (case str_split s ''ENV:'' of
                Inl e \<Rightarrow> Inl e
              | Inr parts \<Rightarrow>
                  (case index parts 1 of
                     Inl e \<Rightarrow> Inl e
                   | Inr env_var \<Rightarrow>
                       (case env env_var of
                          None \<Rightarrow>
                            Inl (ValueError (''Environment variable '' @ env_var @ '' not found''))
                        | Some env_value \<Rightarrow> Inr (JStr env_value))))
           else Inr v)
      | _ \<Rightarrow> Inr v)"

text \<open>
  \<^verbatim>\<open>_resolve_config_values\<close>: the loop over \<^verbatim>\<open>config.items()\<close>. A dict value is
  resolved recursively, a string by \<open>resolve_env_value\<close>, anything else (a number, a
  boolean, null, a list) is copied. The first exception ends the loop.
\<close>

fun resolve_config_values :: "(string \<rightharpoonup> string) \<Rightarrow> (string \<times> json) list \<Rightarrow> pyerror + (string \<times> json) list" where
  "resolve_config_values env [] = Inr []"
| "resolve_config_values env ((key, v) # rest) =
     (case (case v of
              JDict d \<Rightarrow> (case resolve_config_values env d of Inl e \<Rightarrow> Inl e | Inr d' \<Rightarrow> Inr (JDict d'))
            | JStr s \<Rightarrow> resolve_env_value env (JStr s)
            | _ \<Rightarrow> Inr v) of
        Inl e \<Rightarrow> Inl e
      | Inr v' \<Rightarrow>
          (case resolve_config_values env rest of
             Inl e \<Rightarrow> Inl e
           | Inr rest' \<Rightarrow> Inr ((key, v') # rest')))"

text \<open>
  What the documentation of \<^verbatim>\<open>_resolve_env_value\<close> describes: the variable name is
  everything after the \<^verbatim>\<open>ENV:\<close> prefix. \<open>spec_resolve_config_values\<close> is
  \<open>resolve_config_values\<close> with that reading, for comparison with the code.
\<close>

definition spec_resolve_env_value :: "(string \<rightharpoonup> string) \<Rightarrow> string \<Rightarrow> pyerror + json" where
  "spec_resolve_env_value env s =
     (if startswith s ''ENV:'' then
        (case env (drop 4 s) of
           None \<Rightarrow> Inl (ValueError (''Environment variable '' @ drop 4 s @ '' not found''))
         | Some env_value \<Rightarrow> Inr (JStr env_value))
      else Inr (JStr s))"

fun spec_resolve_value :: "(string \<rightharpoonup> string) \<Rightarrow> json \<Rightarrow> pyerror + json"
and spec_resolve_config_values :: "(string \<rightharpoonup> string) \<Rightarrow> (string \<times> json) list \<Rightarrow> pyerror + (string \<times> json) list" where
  "spec_resolve_value env (JDict d) =
     (case spec_resolve_config_values env d of Inl e \<Rightarrow> Inl e | Inr d' \<Rightarrow> Inr (JDict d'))"
| "spec_resolve_value env (JStr s) = spec_resolve_env_value env s"
| "spec_resolve_value env v = Inr v"
| "spec_resolve_config_values env [] = Inr []"
| "spec_resolve_config_values env ((key, v) # rest) =
     (case spec_resolve_value env v of
        Inl e \<Rightarrow> Inl e
      | Inr v' \<Rightarrow>
          (case spec_resolve_config_values env rest of
             Inl e \<Rightarrow> Inl e
           | Inr rest' \<Rightarrow> Inr ((key, v') # rest')))"

text \<open>\<^verbatim>\<open>sep in s\<close>: \<open>sep\<close> occurs in \<open>s\<close>.\<close>

fun contains :: "string \<Rightarrow> string \<Rightarrow> bool" where
  "contains [] sep = (sep = [])"
| "contains (c # cs) sep = (startswith (c # cs) sep \<or> contains cs sep)"

text \<open>
  The placeholders of a mapping are plain when no variable name contains \<^verbatim>\<open>ENV:\<close>
  again, at any depth of nested mappings.
\<close>

fun plain_refs :: "(string \<times> json) list \<Rightarrow> bool" where
  "plain_refs [] = True"
| "plain_refs ((key, v) # rest) =
     ((case v of
         JDict d \<Rightarrow> plain_refs d
       | JStr s \<Rightarrow> (if startswith s ''ENV:'' then \<not> contains (drop 4 s) ''ENV:'' else True)
       | _ \<Rightarrow> True) \<and> plain_refs rest)"

subsection \<open>The registry and the loader\<close>

text \<open>
  One entry of \<^verbatim>\<open>"llms"\<close> in config/llm.json. Each field is \<open>None\<close> when the key is
  absent. \<^verbatim>\<open>load_on_init\<close> holds whatever JSON value the file gives it: the loop of
  \<^verbatim>\<open>_load_initial_llms\<close> reads it outside its \<^verbatim>\<open>try\<close>. \<^verbatim>\<open>import_module\<close> and
  \<^verbatim>\<open>import_class\<close> are taken as strings and \<^verbatim>\<open>config\<close> (here \<open>config_args\<close>) as a
  mapping: they are read inside \<open>load_llm\<close> only.
\<close>

record llm_entry =
  import_module :: "string option"
  import_class :: "string option"
  config_args :: "(string \<times> json) list option"
  load_on_init :: "json option"

record llm_registry =
  llms :: "(string \<times> llm_entry) list option"
  managerLLM :: "string option"

text \<open>
  An instantiated client. \<open>inst_id\<close> is the object's identity: two instances are the
  same Python object exactly when their identities agree.
\<close>

record llm_instance =
  inst_id :: nat
  inst_module :: string
  inst_class :: string
  inst_kwargs :: "(string \<times> json) list"

text \<open>
  What the loader does to the outside: \<open>ImportCall m c\<close> is one run of
  \<^verbatim>\<open>importlib.import_module(m)\<close> with \<^verbatim>\<open>getattr(module, c)\<close>, \<open>CtorCall n\<close> one call
  of the class for the entry \<open>n\<close>, \<open>Constructed n i\<close> its return with the new object \<open>i\<close>.
  \<open>PrintLoaded\<close> and \<open>PrintFailed\<close> are the two lines \<^verbatim>\<open>_load_initial_llms\<close> prints.
\<close>

datatype event = ImportCall string string | CtorCall string | Constructed string nat

datatype log_line = PrintLoaded string | PrintFailed string string

text \<open>
  The surroundings of the loader: the JSON file behind a path, the import system (the
  exception importing raises, if any), the constructors of the imported classes (the
  exception a call raises, if any) and the process environment.
\<close>

record pyworld =
  load_json :: "string \<Rightarrow> pyerror + llm_registry"
  import_raises :: "string \<Rightarrow> string \<Rightarrow> pyerror option"
  init_raises :: "string \<Rightarrow> string \<Rightarrow> (string \<times> json) list \<Rightarrow> pyerror option"
  environ :: "string \<rightharpoonup> string"

text \<open>
  The \<^verbatim>\<open>LLMConfigLoader\<close> object: its three attributes, and with them the events so
  far, the lines printed so far and the identity the next new object gets.
\<close>

record loader =
  config_path :: string
  config :: llm_registry
  llm_instances :: "string \<rightharpoonup> llm_instance"
  trace :: "event list"
  out :: "log_line list"
  next_id :: nat

text \<open>\<^verbatim>\<open>self.config.get("llms", {})\<close> and Python's \<^verbatim>\<open>not s\<close> on an optional string.\<close>

definition llms_config :: "loader \<Rightarrow> (string \<times> llm_entry) list" where
  "llms_config st = (case llms (config st) of None \<Rightarrow> [] | Some d \<Rightarrow> d)"

definition falsy :: "string option \<Rightarrow> bool" where
  "falsy x = (case x of None \<Rightarrow> True | Some s \<Rightarrow> s = [])"

definition quoted :: "string \<Rightarrow> string" where
  "quoted s = [CHR 0x27] @ s @ [CHR 0x27]"

text \<open>\<^verbatim>\<open>except (ImportError, AttributeError)\<close>.\<close>

fun import_or_attribute_error :: "pyerror \<Rightarrow> bool" where
  "import_or_attribute_error (ImportError m) = True"
| "import_or_attribute_error (AttributeError m) = True"
| "import_or_attribute_error e = False"

text \<open>
  \<^verbatim>\<open>load_llm\<close>, in the order of the source: the cache, the registry lookup, the two
  import names, the import, the resolution of the arguments, the constructor call, the
  store into the cache. An exception leaves the cache as it was.
\<close>

definition load_llm :: "pyworld \<Rightarrow> string \<Rightarrow> loader \<Rightarrow> (pyerror + llm_instance) \<times> loader" where
  "load_llm w llm_name st =
     (case llm_instances st llm_name of
        Some inst \<Rightarrow> (Inr inst, st)
      | None \<Rightarrow>
          (case map_of (llms_config st) llm_name of
             None \<Rightarrow> (Inl (ValueError (''LLM '' @ quoted llm_name @ '' not found in configuration'')), st)
           | Some llm_config \<Rightarrow>
               (if falsy (import_module llm_config) \<or> falsy (import_class llm_config)
                then (Inl (ValueError (''Missing import_module or import_class for '' @ llm_name)), st)
                else
                  (let module_name = the (import_module llm_config);
                       class_name = the (import_class llm_config);
                       st1 = st\<lparr>trace := trace st @ [ImportCall module_name class_name]\<rparr>
                   in case import_raises w module_name class_name of
                        Some e \<Rightarrow>
                          (if import_or_attribute_error e
                           then (Inl (ImportError (''Could not import '' @ class_name @ '' from ''
                                        @ module_name @ '': '' @ str_of e)), st1)
                           else (Inl e, st1))
                      | None \<Rightarrow>
                          (case resolve_config_values (environ w)
                                  (case config_args llm_config of None \<Rightarrow> [] | Some d \<Rightarrow> d) of
                             Inl e \<Rightarrow> (Inl e, st1)
                           | Inr resolved_config \<Rightarrow>
                               (let st2 = st1\<lparr>trace := trace st1 @ [CtorCall llm_name]\<rparr>
                                in case init_raises w module_name class_name resolved_config of
                                     Some e \<Rightarrow> (Inl e, st2)
                                   | None \<Rightarrow>
                                       (let llm_instance =
                                              \<lparr>inst_id = next_id st2, inst_module = module_name,
                                               inst_class = class_name, inst_kwargs = resolved_config\<rparr>
                                        in (Inr llm_instance,
                                            st2\<lparr>llm_instances := (llm_instances st2)(llm_name \<mapsto> llm_instance),
                                                trace := trace st2 @ [Constructed llm_name (next_id st2)],
                                                next_id := Suc (next_id st2)\<rparr>))))))))"

text \<open>
  The name Python prints for the type of a JSON value, and the AttributeError of
  \<^verbatim>\<open>v.lower()\<close> on a value that is no string.
\<close>

fun type_name :: "json \<Rightarrow> string" where
  "type_name JNull = ''NoneType''"
| "type_name (JBool b) = ''bool''"
| "type_name (JNum n) = ''int''"
| "type_name (JStr s) = ''str''"
| "type_name (JList xs) = ''list''"
| "type_name (JDict d) = ''dict''"

definition no_lower :: "json \<Rightarrow> pyerror" where
  "no_lower v = AttributeError (quoted (type_name v) @ '' object has no attribute '' @ quoted ''lower'')"

text \<open>
  The test of \<^verbatim>\<open>_load_initial_llms\<close>,
  \<^verbatim>\<open>llm_config.get("load_on_init", "False").lower() == "true"\<close>: the flag, the string
  \<^verbatim>\<open>"False"\<close> when absent, is lowered and compared; a flag that is no string has no
  \<^verbatim>\<open>lower\<close> and raises AttributeError.
\<close>

definition flagged :: "llm_entry \<Rightarrow> pyerror + bool" where
  "flagged llm_config =
     (case (case load_on_init llm_config of None \<Rightarrow> JStr ''False'' | Some v \<Rightarrow> v) of
        JStr s \<Rightarrow> Inr (lower s = ''true'')
      | v \<Rightarrow> Inl (no_lower v))"

text \<open>
  \<^verbatim>\<open>_load_initial_llms\<close>: the loop over the entries of the registry, in their order.
  The test of the flag stands before the \<^verbatim>\<open>try\<close>, so its exception leaves the loop and
  the method; the \<^verbatim>\<open>try\<close> turns every exception of \<open>load_llm\<close> into a printed line.
\<close>

fun load_initial_llms_loop :: "pyworld \<Rightarrow> (string \<times> llm_entry) list \<Rightarrow> loader \<Rightarrow> pyerror + loader" where
  "load_initial_llms_loop w [] st = Inr st"
| "load_initial_llms_loop w ((llm_name, llm_config) # rest) st =
     (case flagged llm_config of
        Inl e \<Rightarrow> Inl e
      | Inr b \<Rightarrow>
          (if b then
             (case load_llm w llm_name st of
                (Inr inst, st') \<Rightarrow>
                  load_initial_llms_loop w rest (st'\<lparr>out := out st' @ [PrintLoaded llm_name]\<rparr>)
              | (Inl e, st') \<Rightarrow>
                  load_initial_llms_loop w rest (st'\<lparr>out := out st' @ [PrintFailed llm_name (str_of e)]\<rparr>))
           else load_initial_llms_loop w rest st))"

definition load_initial_llms :: "pyworld \<Rightarrow> loader \<Rightarrow> pyerror + loader" where
  "load_initial_llms w st = load_initial_llms_loop w (llms_config st) st"

text \<open>
  \<^verbatim>\<open>LLMConfigLoader.__init__\<close>: reading the file may raise (no file, no JSON); after
  that the loader starts with an empty cache and loads the flagged entries, and an
  exception of \<^verbatim>\<open>_load_initial_llms\<close> is an exception of the constructor.
\<close>

definition LLMConfigLoader :: "pyworld \<Rightarrow> string \<Rightarrow> pyerror + loader" where
  "LLMConfigLoader w path =
     (case load_json w path of
        Inl e \<Rightarrow> Inl e
      | Inr cfg \<Rightarrow>
          load_initial_llms w
            \<lparr>config_path = path, config = cfg, llm_instances = Map.empty,
             trace = [], out = [], next_id = 0\<rparr>)"

definition get_manager_llm :: "pyworld \<Rightarrow> loader \<Rightarrow> (pyerror + llm_instance) \<times> loader" where
  "get_manager_llm w st =
     (if falsy (managerLLM (config st))
      then (Inl (ValueError ''No managerLLM specified in configuration''), st)
      else load_llm w (the (managerLLM (config st))) st)"

text \<open>
  A lifetime of the loader: requests for names, each in the surroundings of its moment.
  \<open>constructions n st\<close> counts the objects built for \<open>n\<close> so far.
\<close>

fun load_all :: "(pyworld \<times> string) list \<Rightarrow> loader \<Rightarrow> loader" where
  "load_all [] st = st"
| "load_all ((w, llm_name) # calls) st = load_all calls (snd (load_llm w llm_name st))"

fun built_for :: "string \<Rightarrow> event \<Rightarrow> bool" where
  "built_for n (Constructed m i) = (m = n)"
| "built_for n e = False"

definition constructions :: "string \<Rightarrow> loader \<Rightarrow> nat" where
  "constructions n st = length (filter (built_for n) (trace st))"

text \<open>
  The cache and the trace agree when every name has been built once if it is cached and
  never otherwise.
\<close>

definition cache_counts :: "loader \<Rightarrow> bool" where
  "cache_counts st = (\<forall>n. constructions n st = (if llm_instances st n = None then 0 else 1))"

text \<open>The entry a printed line is about, and the entries of a registry.\<close>

fun line_name :: "log_line \<Rightarrow> string" where
  "line_name (PrintLoaded n) = n"
| "line_name (PrintFailed n msg) = n"

definition entries_of :: "llm_registry \<Rightarrow> (string \<times> llm_entry) list" where
  "entries_of cfg = (case llms cfg of None \<Rightarrow> [] | Some d \<Rightarrow> d)"

text \<open>
  The entries marked for loading, and the registries in which every flag that is present
  is a string.
\<close>

definition marked :: "string \<times> llm_entry \<Rightarrow> bool" where
  "marked entry = (flagged (snd entry) = Inr True)"

fun string_flag :: "llm_entry \<Rightarrow> bool" where
  "string_flag llm_config =
     (case load_on_init llm_config of None \<Rightarrow> True | Some (JStr s) \<Rightarrow> True | Some v \<Rightarrow> False)"

definition string_flags :: "(string \<times> llm_entry) list \<Rightarrow> bool" where
  "string_flags entries = list_all (\<lambda>entry. string_flag (snd entry)) entries"

section \<open>Document processor (document\_processor.py)\<close>

text \<open>
  A LangChain \<^verbatim>\<open>Document\<close>: its text and its metadata dict.
\<close>

record document =
  page_content :: string
  metadata :: "(string \<times> string) list"

subsection \<open>Paths\<close>

text \<open>
  \<^verbatim>\<open>Path(p).suffix\<close> for POSIX paths, as pathlib computes it: the path is cut at
  \<^verbatim>\<open>/\<close>, empty and \<^verbatim>\<open>.\<close> components are dropped, the name is the last component
  left, and the suffix is the name from its last dot on when that dot is neither the
  first nor the last character of the name.
\<close>

definition path_parts :: "string \<Rightarrow> string list" where
  "path_parts p = filter (\<lambda>c. c \<noteq> [] \<and> c \<noteq> ''.'') (split_from ''/'' [] p)"

definition path_name :: "string \<Rightarrow> string" where
  "path_name p = (case rev (path_parts p) of [] \<Rightarrow> [] | n # _ \<Rightarrow> n)"

text \<open>\<^verbatim>\<open>s.rfind(c)\<close> for one character; \<open>None\<close> is Python's -1.\<close>

fun rfind :: "string \<Rightarrow> char \<Rightarrow> nat option" where
  "rfind [] c = None"
| "rfind (x # xs) c =
     (case rfind xs c of
        Some i \<Rightarrow> Some (Suc i)
      | None \<Rightarrow> (if x = c then Some 0 else None))"

definition path_suffix :: "string \<Rightarrow> string" where
  "path_suffix p =
     (let name = path_name p in
      case rfind name CHR ''.'' of
        None \<Rightarrow> []
      | Some i \<Rightarrow> (if 0 < i \<and> Suc i < length name then drop i name else []))"



subsection \<open>Loaders\<close>

datatype loader_class =
    PyPDFLoader
  | Docx2txtLoader
  | UnstructuredHTMLLoader
  | CSVLoader
  | UnstructuredExcelLoader
  | TextLoader

text \<open>A loader object: an instance of a loader class made for one file path.\<close>

datatype doc_loader = Loader loader_class string

text \<open>\<^verbatim>\<open>self.loader_mapping\<close>, in the order the dict literal lists its keys.\<close>

definition loader_mapping :: "(string \<times> loader_class) list" where
  "loader_mapping =
     [(''.pdf'', PyPDFLoader),
      (''.docx'', Docx2txtLoader),
      (''.doc'', Docx2txtLoader),
      (''.html'', UnstructuredHTMLLoader),
      (''.htm'', UnstructuredHTMLLoader),
      (''.csv'', CSVLoader),
      (''.xlsx'', UnstructuredExcelLoader),
      (''.xls'', UnstructuredExcelLoader),
      (''.txt'', TextLoader)]"

text \<open>
  The surroundings of the processor: the file system, the loader classes (the exception
  a constructor raises, if any, and what \<^verbatim>\<open>load()\<close> gives) and the text splitter
  built from chunk size and overlap.
\<close>

record doc_world =
  path_exists :: "string \<Rightarrow> bool"
  isdir :: "string \<Rightarrow> bool"
  isfile :: "string \<Rightarrow> bool"
  listdir :: "string \<Rightarrow> string list"
  walk :: "string \<Rightarrow> (string \<times> string list) list"
  loader_init_raises :: "loader_class \<Rightarrow> string \<Rightarrow> pyerror option"
  loader_load :: "loader_class \<Rightarrow> string \<Rightarrow> pyerror + document list"
  splitter_split :: "nat \<Rightarrow> nat \<Rightarrow> document list \<Rightarrow> pyerror + document list"


text \<open>
  \<^verbatim>\<open>get_loader_for_file\<close>: the lowered suffix is looked up; an unknown one raises
  ValueError with the keys of the mapping joined by \<^verbatim>\<open>", "\<close>; a known one calls the
  mapped class on the path.
\<close>

definition get_loader_for_file :: "doc_world \<Rightarrow> string \<Rightarrow> pyerror + doc_loader" where
  "get_loader_for_file w file_path =
     (let file_extension = lower (path_suffix file_path) in
      case map_of loader_mapping file_extension of
        None \<Rightarrow>
          Inl (ValueError (''Unsupported file type: '' @ file_extension @ ''. ''
                 @ ''Supported types: '' @ join '', '' (map fst loader_mapping)))
      | Some loader_class \<Rightarrow>
          (case loader_init_raises w loader_class file_path of
             Some e \<Rightarrow> Inl e
           | None \<Rightarrow> Inr (Loader loader_class file_path)))"












section \<open>Vector store manager (vector\_store.py)\<close>

text \<open>
  The Chroma collection: the stored documents under their ids. What the library does
  with it is part of the surroundings: \<open>chroma_from_documents\<close> builds a collection,
  \<open>chroma_add_documents\<close> appends and returns the new ids, \<open>has_persist\<close> says whether
  the object has a \<^verbatim>\<open>persist\<close> method and \<open>persist_raises\<close> what calling it raises.
\<close>

datatype chroma = Chroma "(string \<times> document) list"

record vs_world =
  chroma_from_documents :: "document list \<Rightarrow> string \<Rightarrow> string \<Rightarrow> pyerror + chroma"
  chroma_add_documents :: "chroma \<Rightarrow> document list \<Rightarrow> (pyerror + string list) \<times> chroma"
  has_persist :: bool
  persist_raises :: "chroma \<Rightarrow> pyerror option"

record vector_store_manager =
  persist_directory :: string
  collection_name :: string
  vectorstore :: "chroma option"

definition add_documents :: "vs_world \<Rightarrow> document list \<Rightarrow> vector_store_manager
    \<Rightarrow> (pyerror + string list) \<times> vector_store_manager" where
  "add_documents w documents self =
     (if documents = [] then (Inr [], self)
      else
        (case vectorstore self of
           None \<Rightarrow>
             (case chroma_from_documents w documents (persist_directory self) (collection_name self) of
                Inl e \<Rightarrow> (Inl e, self)
              | Inr vs \<Rightarrow>
                  (let self1 = self\<lparr>vectorstore := Some vs\<rparr> in
                   if has_persist w then
                     (case persist_raises w vs of
                        Some e \<Rightarrow> (Inl e, self1)
                      | None \<Rightarrow> (Inr [], self1))
                   else (Inr [], self1)))
         | Some vs \<Rightarrow>
             (case chroma_add_documents w vs documents of
                (Inl e, vs') \<Rightarrow> (Inl e, self\<lparr>vectorstore := Some vs'\<rparr>)
              | (Inr ids, vs') \<Rightarrow> (Inr ids, self\<lparr>vectorstore := Some vs'\<rparr>))))"

text \<open>
  \<^verbatim>\<open>get_retriever\<close>: ValueError without a store; otherwise a retriever with the given
  search arguments, \<^verbatim>\<open>{"k": 4}\<close> when none (or an empty dict) is given.
\<close>

datatype retriever = Retriever "(string \<times> int) list"

definition get_retriever :: "vector_store_manager \<Rightarrow> (string \<times> int) list option \<Rightarrow> pyerror + retriever" where
  "get_retriever self search_kwargs =
     (case vectorstore self of
        None \<Rightarrow> Inl (ValueError ''Vector store is empty. Please add documents first.'')
      | Some vs \<Rightarrow>
          Inr (Retriever (case search_kwargs of
                            None \<Rightarrow> [(''k'', 4)]
                          | Some kw \<Rightarrow> (if kw = [] then [(''k'', 4)] else kw))))"

text \<open>
  \<^verbatim>\<open>VectorStoreManager.__init__\<close> with \<^verbatim>\<open>_initialize_vectorstore\<close>: after the embedding
  model is loaded, a persist directory that exists is opened as a Chroma collection,
  whatever it holds; without the directory there is no store object. The surroundings
  say whether loading the embeddings raises, which directories exist and what opening a
  collection gives.
\<close>

record store_world =
  embeddings_raise :: "pyerror option"
  dir_exists :: "string \<Rightarrow> bool"
  chroma_open :: "string \<Rightarrow> string \<Rightarrow> pyerror + chroma"

definition initialize_vectorstore :: "store_world \<Rightarrow> vector_store_manager \<Rightarrow> pyerror + vector_store_manager" where
  "initialize_vectorstore w self =
     (if dir_exists w (persist_directory self) then
        (case chroma_open w (persist_directory self) (collection_name self) of
           Inl e \<Rightarrow> Inl e
         | Inr vs \<Rightarrow> Inr (self\<lparr>vectorstore := Some vs\<rparr>))
      else Inr (self\<lparr>vectorstore := None\<rparr>))"

definition VectorStoreManager :: "store_world \<Rightarrow> string \<Rightarrow> string \<Rightarrow> pyerror + vector_store_manager" where
  "VectorStoreManager w directory collection =
     (case embeddings_raise w of
        Some e \<Rightarrow> Inl e
      | None \<Rightarrow>
          initialize_vectorstore w
            \<lparr>persist_directory = directory, collection_name = collection, vectorstore = None\<rparr>)"

text \<open>
  \<^verbatim>\<open>get_collection_count\<close>: the number of stored documents, 0 without a store.
\<close>

definition get_collection_count :: "vector_store_manager \<Rightarrow> nat" where
  "get_collection_count self =
     (case vectorstore self of None \<Rightarrow> 0 | Some (Chroma entries) \<Rightarrow> length entries)"

section \<open>Conversational chain (rag\_chain.py)\<close>

text \<open>
  A message of the chat memory; \<open>msg_type\<close> is its \<^verbatim>\<open>type\<close> attribute, \<open>None\<close> when
  the object has none. The memory object keeps the arguments it was built with and its
  messages; \<^verbatim>\<open>clear()\<close> empties the messages.
\<close>

record message =
  msg_type :: "string option"
  content :: string

record memory =
  mem_memory_key :: string
  return_messages :: bool
  output_key :: string
  max_token_limit :: nat
  messages :: "message list"

definition memory_clear :: "memory \<Rightarrow> memory" where
  "memory_clear m = m\<lparr>messages := []\<rparr>"

text \<open>
  The chain built by \<^verbatim>\<open>ConversationalRetrievalChain.from_llm\<close>. It holds the chatbot's
  memory object by reference, so the memory is kept once, in the chatbot.
\<close>

record chain =
  chain_llm :: llm_instance
  chain_retriever :: retriever
  chain_return_source_documents :: bool
  chain_verbose :: bool

text \<open>What \<^verbatim>\<open>chain.invoke\<close> returns: a dict that may lack either key.\<close>

record response =
  resp_answer :: "string option"
  resp_source_documents :: "document list option"

text \<open>
  The surroundings of the chatbot: the exception \<^verbatim>\<open>from_llm\<close> raises, if any, and
  \<^verbatim>\<open>chain.invoke\<close>, which gives an exception or a response, the memory afterwards and
  the number of calls it made to the LLM client.
\<close>

record chat_world =
  from_llm_raises :: "pyerror option"
  invoke :: "chain \<Rightarrow> memory \<Rightarrow> string \<Rightarrow> (pyerror + response) \<times> memory \<times> nat"

text \<open>
  The \<^verbatim>\<open>RAGChatbot\<close> object: its attributes (\<open>chain_obj\<close> is \<^verbatim>\<open>self.chain\<close>), and the
  number of calls made to the LLM client so far.
\<close>

record chatbot =
  memory_key :: string
  return_source_documents :: bool
  verbose :: bool
  llm :: llm_instance
  vector_store :: vector_store_manager
  memory :: memory
  chain_obj :: "chain option"
  llm_calls :: nat

record chat_result =
  answer :: string
  source_documents :: "document list"

definition initialize_chain :: "chat_world \<Rightarrow> chatbot \<Rightarrow> chatbot" where
  "initialize_chain w self =
     (case get_retriever (vector_store self) (Some [(''k'', 4)]) of
        Inl e \<Rightarrow> self\<lparr>chain_obj := None\<rparr>
      | Inr retriever \<Rightarrow>
          (case from_llm_raises w of
             Some e \<Rightarrow> self\<lparr>chain_obj := None\<rparr>
           | None \<Rightarrow>
               self\<lparr>chain_obj :=
                      Some \<lparr>chain_llm = llm self, chain_retriever = retriever,
                            chain_return_source_documents = return_source_documents self,
                            chain_verbose = verbose self\<rparr>\<rparr>))"

text \<open>
  \<^verbatim>\<open>RAGChatbot.__init__\<close>, given the manager LLM and the vector store manager that
  \<^verbatim>\<open>get_manager_llm()\<close> and \<^verbatim>\<open>get_vector_store()\<close> returned: the attributes, a memory
  without messages, no chain, and then one attempt to build the chain.
\<close>

definition RAGChatbot :: "chat_world \<Rightarrow> llm_instance \<Rightarrow> vector_store_manager \<Rightarrow> string \<Rightarrow> bool \<Rightarrow> nat \<Rightarrow> bool
    \<Rightarrow> chatbot" where
  "RAGChatbot w manager_llm store key with_sources max_tokens_limit chatty =
     initialize_chain w
       \<lparr>memory_key = key, return_source_documents = with_sources, verbose = chatty,
        llm = manager_llm, vector_store = store,
        memory = \<lparr>mem_memory_key = key, return_messages = True, output_key = ''answer'',
                  max_token_limit = max_tokens_limit, messages = []\<rparr>,
        chain_obj = None, llm_calls = 0\<rparr>"

definition no_documents_answer :: string where
  "no_documents_answer =
     ''I don'' @ [CHR 0x27] @ ''t have any documents to answer questions from. Please upload documents first.''"

text \<open>
  \<^verbatim>\<open>chat\<close>: without a chain it tries once to build one and answers with the fixed text
  when there is still none; with a chain it invokes it, and the \<^verbatim>\<open>except\<close> branch turns
  any exception into an answer.
\<close>

definition ensure_chain :: "chat_world \<Rightarrow> chatbot \<Rightarrow> chatbot" where
  "ensure_chain w self = (if chain_obj self = None then initialize_chain w self else self)"

definition chat :: "chat_world \<Rightarrow> string \<Rightarrow> chatbot \<Rightarrow> chat_result \<times> chatbot" where
  "chat w question self =
     (let self1 = ensure_chain w self in
      case chain_obj self1 of
        None \<Rightarrow> (\<lparr>answer = no_documents_answer, source_documents = []\<rparr>, self1)
      | Some c \<Rightarrow>
          (case invoke w c (memory self1) question of
             (Inr resp, m, n) \<Rightarrow>
               (\<lparr>answer = (case resp_answer resp of None \<Rightarrow> [] | Some a \<Rightarrow> a),
                 source_documents = (case resp_source_documents resp of None \<Rightarrow> [] | Some d \<Rightarrow> d)\<rparr>,
                self1\<lparr>memory := m, llm_calls := llm_calls self1 + n\<rparr>)
           | (Inl e, m, n) \<Rightarrow>
               (\<lparr>answer = ''An error occurred: '' @ str_of e, source_documents = []\<rparr>,
                self1\<lparr>memory := m, llm_calls := llm_calls self1 + n\<rparr>)))"

text \<open>
  \<^verbatim>\<open>get_chat_history\<close>: role and content of every message that has a \<^verbatim>\<open>type\<close>.
  \<^verbatim>\<open>clear_memory\<close>: \<^verbatim>\<open>self.memory.clear()\<close>.
\<close>

definition get_chat_history :: "chatbot \<Rightarrow> (string \<times> string) list" where
  "get_chat_history self =
     concat (map (\<lambda>msg. case msg_type msg of None \<Rightarrow> [] | Some t \<Rightarrow> [(t, content msg)])
               (messages (memory self)))"

definition clear_memory :: "chatbot \<Rightarrow> chatbot" where
  "clear_memory self = self\<lparr>memory := memory_clear (memory self)\<rparr>"

text \<open>A conversation: chat requests, each in the surroundings of its moment.\<close>

fun chat_all :: "(chat_world \<times> string) list \<Rightarrow> chatbot \<Rightarrow> chatbot" where
  "chat_all [] self = self"
| "chat_all ((w, question) # turns) self = chat_all turns (snd (chat w question self))"

section \<open>Example surroundings\<close>

text \<open>
  Concrete registries, stores and providers on which the theorems below are run.
\<close>

definition local_entry :: llm_entry where
  "local_entry =
     \<lparr>import_module = Some ''langchain_community.llms'', import_class = Some ''Ollama'',
      config_args = Some [(''model'', JStr ''llama3''), (''temperature'', JNum 0)],
      load_on_init = Some (JStr ''True'')\<rparr>"

definition openai_entry :: llm_entry where
  "openai_entry =
     \<lparr>import_module = Some ''langchain_openai'', import_class = Some ''ChatOpenAI'',
      config_args = Some [(''model'', JStr ''gpt-4o''),
                          (''model_kwargs'', JDict [(''api_key'', JStr ''ENV:OPENAI_API_KEY'')])],
      load_on_init = Some (JStr ''true'')\<rparr>"

definition spare_entry :: llm_entry where
  "spare_entry =
     \<lparr>import_module = Some ''langchain_anthropic'', import_class = Some ''ChatAnthropic'',
      config_args = None, load_on_init = None\<rparr>"

definition demo_registry :: llm_registry where
  "demo_registry =
     \<lparr>llms = Some [(''openai'', openai_entry), (''local'', local_entry), (''spare'', spare_entry)],
      managerLLM = Some ''local''\<rparr>"

text \<open>
  \<open>bare_py\<close> has no \<^verbatim>\<open>OPENAI_API_KEY\<close> in its environment, \<open>keyed_py\<close> has one, and in
  \<open>broken_py\<close> nothing can be imported.
\<close>

definition bare_py :: pyworld where
  "bare_py =
     \<lparr>load_json = (\<lambda>p. if p = ''config/llm.json'' then Inr demo_registry
                         else Inl (FileNotFoundError p)),
      import_raises = (\<lambda>m c. None),
      init_raises = (\<lambda>m c kw. None),
      environ = Map.empty\<rparr>"

definition keyed_py :: pyworld where
  "keyed_py = bare_py\<lparr>environ := [''OPENAI_API_KEY'' \<mapsto> ''sk-1'']\<rparr>"

definition broken_py :: pyworld where
  "broken_py = bare_py\<lparr>import_raises := (\<lambda>m c. Some (ImportError (''No module named '' @ m)))\<rparr>"

text \<open>
  The loader that \<open>bare_py\<close> starts, and the same loader after \<^verbatim>\<open>openai\<close> was
  requested once without and once with the key.
\<close>

definition local_llm :: llm_instance where
  "local_llm =
     \<lparr>inst_id = 0, inst_module = ''langchain_community.llms'', inst_class = ''Ollama'',
      inst_kwargs = [(''model'', JStr ''llama3''), (''temperature'', JNum 0)]\<rparr>"

definition openai_llm :: llm_instance where
  "openai_llm =
     \<lparr>inst_id = 1, inst_module = ''langchain_openai'', inst_class = ''ChatOpenAI'',
      inst_kwargs = [(''model'', JStr ''gpt-4o''),
                     (''model_kwargs'', JDict [(''api_key'', JStr ''sk-1'')])]\<rparr>"

definition started_loader :: loader where
  "started_loader =
     \<lparr>config_path = ''config/llm.json'', config = demo_registry,
      llm_instances = [''local'' \<mapsto> local_llm],
      trace = [ImportCall ''langchain_openai'' ''ChatOpenAI'',
               ImportCall ''langchain_community.llms'' ''Ollama'',
               CtorCall ''local'', Constructed ''local'' 0],
      out = [PrintFailed ''openai'' ''Environment variable OPENAI_API_KEY not found'',
             PrintLoaded ''local''],
      next_id = 1\<rparr>"

definition busy_loader :: loader where
  "busy_loader =
     started_loader
       \<lparr>llm_instances := [''local'' \<mapsto> local_llm, ''openai'' \<mapsto> openai_llm],
        trace := trace started_loader @
                 [ImportCall ''langchain_openai'' ''ChatOpenAI'',
                  ImportCall ''langchain_openai'' ''ChatOpenAI'',
                  CtorCall ''openai'', Constructed ''openai'' 1],
        next_id := 2\<rparr>"

definition quiet_docs :: doc_world where
  "quiet_docs =
     \<lparr>path_exists = (\<lambda>p. p \<noteq> ''missing.txt''), isdir = (\<lambda>p. True), isfile = (\<lambda>p. True),
      listdir = (\<lambda>p. []), walk = (\<lambda>p. []),
      loader_init_raises = (\<lambda>c p. None),
      loader_load = (\<lambda>c p. if c = TextLoader then Inr [\<lparr>page_content = ''hello world'', metadata = []\<rparr>]
                             else Inl (OtherException ''cannot parse'')),
      splitter_split = (\<lambda>size overlap docs. Inr docs)\<rparr>"

definition doc_a :: document where
  "doc_a = \<lparr>page_content = ''hello world'', metadata = [(''source'', ''a.txt'')]\<rparr>"

definition demo_store :: vs_world where
  "demo_store =
     \<lparr>chroma_from_documents =
        (\<lambda>docs dir coll. Inr (Chroma (zip (map (\<lambda>d. ''id-'' @ page_content d) docs) docs))),
      chroma_add_documents =
        (\<lambda>vs docs. case vs of Chroma es \<Rightarrow>
           (Inr (map (\<lambda>d. ''id-'' @ page_content d) docs),
            Chroma (es @ zip (map (\<lambda>d. ''id-'' @ page_content d) docs) docs))),
      has_persist = True,
      persist_raises = (\<lambda>vs. None)\<rparr>"

definition demo_manager :: vector_store_manager where
  "demo_manager =
     \<lparr>persist_directory = ''./chroma_db'', collection_name = ''rag_documents'', vectorstore = None\<rparr>"

definition demo_llm :: llm_instance where
  "demo_llm =
     \<lparr>inst_id = 0, inst_module = ''langchain_openai'', inst_class = ''ChatOpenAI'', inst_kwargs = []\<rparr>"

definition demo_memory :: memory where
  "demo_memory =
     \<lparr>mem_memory_key = ''chat_history'', return_messages = True, output_key = ''answer'',
      max_token_limit = 3000, messages = []\<rparr>"

definition demo_chain :: chain where
  "demo_chain =
     \<lparr>chain_llm = demo_llm, chain_retriever = Retriever [(''k'', 4)],
      chain_return_source_documents = True, chain_verbose = False\<rparr>"

definition demo_chatbot :: chatbot where
  "demo_chatbot =
     \<lparr>memory_key = ''chat_history'', return_source_documents = True, verbose = False, llm = demo_llm,
      vector_store = demo_manager, memory = demo_memory, chain_obj = None, llm_calls = 0\<rparr>"

definition ready_chatbot :: chatbot where
  "ready_chatbot =
     demo_chatbot\<lparr>vector_store := demo_manager\<lparr>vectorstore := Some (Chroma [])\<rparr>,
                  chain_obj := Some demo_chain\<rparr>"

text \<open>A provider that answers every question and records the turn, and one that is down.\<close>

definition echo_world :: chat_world where
  "echo_world =
     \<lparr>from_llm_raises = None,
      invoke = (\<lambda>c m q. (Inr \<lparr>resp_answer = Some (''echo: '' @ q), resp_source_documents = Some []\<rparr>,
                          m\<lparr>messages := messages m @ [\<lparr>msg_type = Some ''human'', content = q\<rparr>,
                                                       \<lparr>msg_type = Some ''ai'', content = ''echo: '' @ q\<rparr>]\<rparr>,
                          2))\<rparr>"

definition down_world :: chat_world where
  "down_world =
     \<lparr>from_llm_raises = None,
      invoke = (\<lambda>c m q. (Inl (OtherException ''connection refused''), m, 1))\<rparr>"

text \<open>
  A registry whose only entry carries the JSON boolean \<^verbatim>\<open>true\<close> as its flag, and the
  same registry with the string \<^verbatim>\<open>"true"\<close>.
\<close>

definition boolean_registry :: llm_registry where
  "boolean_registry =
     \<lparr>llms = Some [(''local'', local_entry\<lparr>load_on_init := Some (JBool True)\<rparr>)],
      managerLLM = Some ''local''\<rparr>"

definition boolean_py :: pyworld where
  "boolean_py = bare_py\<lparr>load_json := (\<lambda>p. Inr boolean_registry)\<rparr>"

definition string_registry :: llm_registry where
  "string_registry =
     \<lparr>llms = Some [(''local'', local_entry\<lparr>load_on_init := Some (JStr ''true'')\<rparr>)],
      managerLLM = Some ''local''\<rparr>"

definition string_py :: pyworld where
  "string_py = bare_py\<lparr>load_json := (\<lambda>p. Inr string_registry)\<rparr>"

text \<open>
  A persist directory that exists and holds an empty collection, the manager it gives,
  and a provider whose chain cannot be built at the moment.
\<close>

definition empty_dir :: store_world where
  "empty_dir =
     \<lparr>embeddings_raise = None, dir_exists = (\<lambda>d. d = ''./chroma_db''),
      chroma_open = (\<lambda>d c. Inr (Chroma []))\<rparr>"

definition empty_manager :: vector_store_manager where
  "empty_manager = demo_manager\<lparr>vectorstore := Some (Chroma [])\<rparr>"

definition flaky_world :: chat_world where
  "flaky_world = echo_world\<lparr>from_llm_raises := Some (OtherException ''timeout'')\<rparr>"

section \<open>Properties of the configuration loader\<close>

subsection \<open>Environment placeholders\<close>

lemma split_from_absent:
  "\<not> contains s sep \<Longrightarrow> split_from sep cur s = [cur @ s]"
  by (induction s arbitrary: cur) auto

lemma split_env_prefix:
  "\<not> contains var ''ENV:'' \<Longrightarrow> str_split (''ENV:'' @ var) ''ENV:'' = Inr ['''', var]"
  by (simp add: str_split_def startswith_def split_from_absent)

text \<open>
  A placeholder whose variable name does not contain \<^verbatim>\<open>ENV:\<close> again resolves to the
  value of that variable, and raises ValueError when the variable is unset.
\<close>

lemma resolve_env_value_plain:
  "\<not> contains var ''ENV:'' \<Longrightarrow>
   resolve_env_value env (JStr (''ENV:'' @ var)) =
     (case env var of
        None \<Rightarrow> Inl (ValueError (''Environment variable '' @ var @ '' not found''))
      | Some x \<Rightarrow> Inr (JStr x))"
  using split_env_prefix[of var]
  by (simp add: resolve_env_value_def index_def startswith_def)

lemma resolve_env_value_spec:
  assumes "startswith s ''ENV:'' \<Longrightarrow> \<not> contains (drop 4 s) ''ENV:''"
  shows "resolve_env_value env (JStr s) = spec_resolve_env_value env s"
proof (cases "startswith s ''ENV:''")
  case True
  then have "take 4 s = ''ENV:''" by (simp add: startswith_def eval_nat_numeral)
  then have s: "s = ''ENV:'' @ drop 4 s" by (metis append_take_drop_id)
  have "resolve_env_value env (JStr (''ENV:'' @ drop 4 s)) =
     (case env (drop 4 s) of
        None \<Rightarrow> Inl (ValueError (''Environment variable '' @ drop 4 s @ '' not found''))
      | Some x \<Rightarrow> Inr (JStr x))"
    using assms True by (intro resolve_env_value_plain) simp
  with s True show ?thesis by (simp add: spec_resolve_env_value_def)
next
  case False
  then show ?thesis by (simp add: resolve_env_value_def spec_resolve_env_value_def)
qed

text \<open>Values that are no placeholder come back unchanged.\<close>

lemma resolve_env_value_other:
  "\<not> startswith s ''ENV:'' \<Longrightarrow> resolve_env_value env (JStr s) = Inr (JStr s)"
  "resolve_env_value env JNull = Inr JNull"
  "resolve_env_value env (JBool b) = Inr (JBool b)"
  "resolve_env_value env (JNum n) = Inr (JNum n)"
  "resolve_env_value env (JList xs) = Inr (JList xs)"
  "resolve_env_value env (JDict d) = Inr (JDict d)"
  by (simp_all add: resolve_env_value_def)

text \<open>
  On mappings with plain placeholders, at any depth, the code resolves as documented.
\<close>

lemma resolve_config_values_spec:
  "plain_refs cfg \<Longrightarrow> resolve_config_values env cfg = spec_resolve_config_values env cfg"
proof (induction env cfg rule: resolve_config_values.induct)
  case (1 env)
  then show ?case by simp
next
  case (2 env key v rest)
  show ?case
  proof (cases v)
    case (JStr s)
    with 2 show ?thesis
      by (auto simp: resolve_env_value_spec split: sum.splits if_splits)
  next
    case (JDict d)
    with 2 show ?thesis by (auto split: sum.splits)
  qed (use 2 in \<open>auto split: sum.splits\<close>)
qed

text \<open>
  C2. Every value \<^verbatim>\<open>ENV:<VAR>\<close> should resolve to the value of the variable \<^verbatim>\<open><VAR>\<close>, or
  fail when it is unset. The code takes the piece between the first two occurrences of
  \<^verbatim>\<open>ENV:\<close> as the name. With the variable \<^verbatim>\<open>PROD_ENV:KEY\<close> set, the value
  \<^verbatim>\<open>ENV:PROD_ENV:KEY\<close> makes the code look for \<^verbatim>\<open>PROD_\<close>: it reports that variable as
  missing, or returns its value when it happens to be set, where the documented reading
  gives the value of \<^verbatim>\<open>PROD_ENV:KEY\<close>.
\<close>

theorem resolve_env_value_marker_in_name:
  "resolve_config_values [''PROD_ENV:KEY'' \<mapsto> ''secret''] [(''api_key'', JStr ''ENV:PROD_ENV:KEY'')]
     = Inl (ValueError ''Environment variable PROD_ not found'')
   \<and> resolve_config_values [''PROD_ENV:KEY'' \<mapsto> ''secret'', ''PROD_'' \<mapsto> ''other'']
        [(''api_key'', JStr ''ENV:PROD_ENV:KEY'')]
     = Inr [(''api_key'', JStr ''other'')]
   \<and> spec_resolve_config_values [''PROD_ENV:KEY'' \<mapsto> ''secret'']
        [(''api_key'', JStr ''ENV:PROD_ENV:KEY'')]
     = Inr [(''api_key'', JStr ''secret'')]"
  by (simp add: resolve_env_value_def spec_resolve_env_value_def str_split_def startswith_def index_def)

subsection \<open>The cache\<close>

lemma load_llm_hit:
  "llm_instances st n = Some inst \<Longrightarrow> load_llm w n st = (Inr inst, st)"
  by (simp add: load_llm_def)

lemma load_llm_success_cached:
  "load_llm w n st = (Inr inst, st') \<Longrightarrow> llm_instances st' n = Some inst"
  by (auto simp: load_llm_def Let_def split: option.splits sum.splits if_splits)

lemma load_llm_keeps:
  "llm_instances st m = Some i \<Longrightarrow> llm_instances (snd (load_llm w n st)) m = Some i"
  by (auto simp: load_llm_def Let_def split: option.splits sum.splits if_splits)

lemma load_llm_frame:
  "config (snd (load_llm w n st)) = config st \<and> out (snd (load_llm w n st)) = out st
   \<and> config_path (snd (load_llm w n st)) = config_path st"
  by (auto simp: load_llm_def Let_def split: option.splits sum.splits if_splits)

text \<open>
  One request either leaves cache and constructions alone or, on a miss, caches one new
  object under the requested name and records its construction.
\<close>

lemma load_llm_effect:
  assumes "load_llm w n st = (r, st')"
  shows "(llm_instances st' = llm_instances st
            \<and> (\<forall>m. filter (built_for m) (trace st') = filter (built_for m) (trace st)))
         \<or> (llm_instances st n = None
            \<and> (\<exists>inst. llm_instances st' = (llm_instances st)(n \<mapsto> inst))
            \<and> (\<forall>m. filter (built_for m) (trace st') =
                    filter (built_for m) (trace st) @ (if m = n then [Constructed n (next_id st)] else [])))"
  using assms
  by (auto simp: load_llm_def Let_def split: option.splits sum.splits if_splits)

lemma load_llm_counts:
  assumes "cache_counts st"
  shows "cache_counts (snd (load_llm w n st))"
proof -
  obtain r st' where r: "load_llm w n st = (r, st')" by (cases "load_llm w n st")
  from load_llm_effect[OF r] show ?thesis
  proof
    assume "llm_instances st' = llm_instances st
            \<and> (\<forall>m. filter (built_for m) (trace st') = filter (built_for m) (trace st))"
    with assms r show ?thesis by (simp add: cache_counts_def constructions_def)
  next
    assume a: "llm_instances st n = None
            \<and> (\<exists>inst. llm_instances st' = (llm_instances st)(n \<mapsto> inst))
            \<and> (\<forall>m. filter (built_for m) (trace st') =
                    filter (built_for m) (trace st) @ (if m = n then [Constructed n (next_id st)] else []))"
    then obtain inst where i: "llm_instances st' = (llm_instances st)(n \<mapsto> inst)" by blast
    from assms a have "constructions n st = 0" by (simp add: cache_counts_def)
    with assms a i r show ?thesis by (simp add: cache_counts_def constructions_def)
  qed
qed

lemma load_all_keeps:
  "llm_instances st m = Some i \<Longrightarrow> llm_instances (load_all calls st) m = Some i"
  by (induction calls arbitrary: st) (auto simp: load_llm_keeps)

lemma load_all_counts:
  "cache_counts st \<Longrightarrow> cache_counts (load_all calls st)"
  by (induction calls arbitrary: st) (auto simp: load_llm_counts)

lemma cache_counts_out: "cache_counts (st\<lparr>out := x\<rparr>) = cache_counts st"
  by (simp add: cache_counts_def constructions_def)

text \<open>
  A turn of the loop that goes on: the entry is not marked, or it is marked and was
  loaded, or it is marked and loading it raised.
\<close>

lemma loop_Cons_cases:
  assumes "load_initial_llms_loop w ((n, e) # rest) st = Inr st'"
  obtains (skip) "flagged e = Inr False" "load_initial_llms_loop w rest st = Inr st'"
  | (loaded) inst st1 where "flagged e = Inr True" "load_llm w n st = (Inr inst, st1)"
      "load_initial_llms_loop w rest (st1\<lparr>out := out st1 @ [PrintLoaded n]\<rparr>) = Inr st'"
  | (failed) err st1 where "flagged e = Inr True" "load_llm w n st = (Inl err, st1)"
      "load_initial_llms_loop w rest (st1\<lparr>out := out st1 @ [PrintFailed n (str_of err)]\<rparr>) = Inr st'"
proof (cases "flagged e")
  case (Inl x)
  with assms show ?thesis by simp
next
  case (Inr b)
  show ?thesis
  proof (cases b)
    case False
    with Inr assms skip show ?thesis by simp
  next
    case True
    obtain r st1 where r: "load_llm w n st = (r, st1)" by (cases "load_llm w n st")
    show ?thesis
    proof (cases r)
      case (Inl err)
      with True Inr r assms failed show ?thesis by simp
    next
      case (Inr inst)
      with True \<open>flagged e = Inr b\<close> r assms loaded show ?thesis by simp
    qed
  qed
qed

lemma loop_counts:
  "cache_counts st \<Longrightarrow> load_initial_llms_loop w entries st = Inr st' \<Longrightarrow> cache_counts st'"
proof (induction entries arbitrary: st)
  case Nil
  then show ?case by simp
next
  case (Cons a entries)
  obtain n e where a: "a = (n, e)" by (cases a)
  from Cons.prems(2) show ?case unfolding a
  proof (cases rule: loop_Cons_cases)
    case skip
    with Cons show ?thesis by simp
  next
    case (loaded inst st1)
    have "cache_counts st1" using load_llm_counts[OF Cons.prems(1), of w n] loaded by simp
    then have "cache_counts (st1\<lparr>out := out st1 @ [PrintLoaded n]\<rparr>)" by (simp add: cache_counts_out)
    with loaded show ?thesis by (rule_tac Cons.IH)
  next
    case (failed err st1)
    have "cache_counts st1" using load_llm_counts[OF Cons.prems(1), of w n] failed by simp
    then have "cache_counts (st1\<lparr>out := out st1 @ [PrintFailed n (str_of err)]\<rparr>)"
      by (simp add: cache_counts_out)
    with failed show ?thesis by (rule_tac Cons.IH)
  qed
qed

lemma init_counts:
  assumes "LLMConfigLoader w path = Inr st"
  shows "cache_counts st"
proof -
  from assms obtain cfg where
    st: "load_initial_llms w \<lparr>config_path = path, config = cfg, llm_instances = Map.empty,
                              trace = [], out = [], next_id = 0\<rparr> = Inr st"
    by (auto simp: LLMConfigLoader_def split: sum.splits)
  have "cache_counts \<lparr>config_path = path, config = cfg, llm_instances = Map.empty,
                      trace = [], out = [], next_id = 0\<rparr>"
    by (simp add: cache_counts_def constructions_def)
  then show ?thesis using st unfolding load_initial_llms_def by (rule loop_counts)
qed

lemma cache_counts_le: "cache_counts st \<Longrightarrow> constructions n st \<le> 1"
  by (simp add: cache_counts_def)

lemmas loader_eval =
  LLMConfigLoader_def load_initial_llms_def llms_config_def load_llm_def flagged_def lower_def
  lower_char_def resolve_env_value_def str_split_def startswith_def index_def falsy_def Let_def
  bare_py_def keyed_py_def broken_py_def demo_registry_def openai_entry_def local_entry_def
  spare_entry_def quoted_def

text \<open>
  C3. Once a request for a name has returned an instance, at any moment in the life of
  a loader, every later request for that name returns the same object and leaves the
  loader as it is, whatever the surroundings, so nothing is imported or constructed again;
  exactly one object has been constructed for that name, and no name ever has more than
  one.
\<close>

theorem load_llm_memoized:
  assumes "LLMConfigLoader w0 path = Inr st0"
    and "load_llm w llm_name (load_all before st0) = (Inr inst, st')"
  shows "load_llm w' llm_name (load_all after st') = (Inr inst, load_all after st')
         \<and> constructions llm_name (load_all after st') = 1
         \<and> constructions n (load_all after st') \<le> 1"
proof -
  have c0: "cache_counts (load_all before st0)"
    using assms(1) by (intro load_all_counts init_counts)
  have "cache_counts st'"
    using load_llm_counts[OF c0, of w llm_name] assms(2) by simp
  then have c: "cache_counts (load_all after st')" by (rule load_all_counts)
  have "llm_instances st' llm_name = Some inst"
    using assms(2) by (rule load_llm_success_cached)
  then have h: "llm_instances (load_all after st') llm_name = Some inst"
    by (rule load_all_keeps)
  from h have "load_llm w' llm_name (load_all after st') = (Inr inst, load_all after st')"
    by (rule load_llm_hit)
  moreover from c h have "constructions llm_name (load_all after st') = 1"
    by (simp add: cache_counts_def)
  moreover from c have "constructions n (load_all after st') \<le> 1" by (rule cache_counts_le)
  ultimately show ?thesis by simp
qed

theorem load_llm_memoized_witness:
  "LLMConfigLoader bare_py ''config/llm.json'' = Inr started_loader
   \<and> load_llm keyed_py ''openai'' (load_all [(bare_py, ''openai'')] started_loader) = (Inr openai_llm, busy_loader)
   \<and> load_llm broken_py ''openai'' (load_all [(bare_py, ''spare'')] busy_loader) =
       (Inr openai_llm, load_all [(bare_py, ''spare'')] busy_loader)
   \<and> constructions ''openai'' (load_all [(bare_py, ''spare'')] busy_loader) = 1
   \<and> constructions ''local'' (load_all [(bare_py, ''spare'')] busy_loader) \<le> 1"
proof -
  have a: "LLMConfigLoader bare_py ''config/llm.json'' = Inr started_loader"
    by (simp add: loader_eval started_loader_def local_llm_def)
  have b: "load_llm keyed_py ''openai'' (load_all [(bare_py, ''openai'')] started_loader)
             = (Inr openai_llm, busy_loader)"
    by (simp add: loader_eval started_loader_def busy_loader_def local_llm_def openai_llm_def)
  from load_llm_memoized [OF a b, of broken_py "[(bare_py, ''spare'')]" "''local''"] a b
  show ?thesis by simp
qed

subsection \<open>Eager loading\<close>

lemma loop_config:
  "load_initial_llms_loop w entries st = Inr st' \<Longrightarrow> config st' = config st"
proof (induction entries arbitrary: st)
  case Nil
  then show ?case by simp
next
  case (Cons a entries)
  obtain n e where a: "a = (n, e)" by (cases a)
  from Cons.prems show ?case unfolding a
  proof (cases rule: loop_Cons_cases)
    case skip
    with Cons show ?thesis by simp
  next
    case (loaded inst st1)
    have "config st1 = config st" using load_llm_frame[of w n st] loaded by simp
    with Cons.IH[OF loaded(3)] show ?thesis by simp
  next
    case (failed err st1)
    have "config st1 = config st" using load_llm_frame[of w n st] failed by simp
    with Cons.IH[OF failed(3)] show ?thesis by simp
  qed
qed

lemma loop_keeps:
  "llm_instances st m = Some i \<Longrightarrow> load_initial_llms_loop w entries st = Inr st' \<Longrightarrow>
   llm_instances st' m = Some i"
proof (induction entries arbitrary: st)
  case Nil
  then show ?case by simp
next
  case (Cons a entries)
  obtain n e where a: "a = (n, e)" by (cases a)
  from Cons.prems(2) show ?case unfolding a
  proof (cases rule: loop_Cons_cases)
    case skip
    with Cons show ?thesis by simp
  next
    case (loaded inst st1)
    have "llm_instances st1 m = Some i" using load_llm_keeps[OF Cons.prems(1), of w n] loaded by simp
    then have "llm_instances (st1\<lparr>out := out st1 @ [PrintLoaded n]\<rparr>) m = Some i" by simp
    with loaded show ?thesis by (rule_tac Cons.IH)
  next
    case (failed err st1)
    have "llm_instances st1 m = Some i" using load_llm_keeps[OF Cons.prems(1), of w n] failed by simp
    then have "llm_instances (st1\<lparr>out := out st1 @ [PrintFailed n (str_of err)]\<rparr>) m = Some i" by simp
    with failed show ?thesis by (rule_tac Cons.IH)
  qed
qed

lemma marked_pair: "marked (n, e) = (flagged e = Inr True)"
  by (simp add: marked_def)

text \<open>Every marked entry gets one printed line, in the order of the registry.\<close>

lemma loop_lines:
  "load_initial_llms_loop w entries st = Inr st' \<Longrightarrow>
   map line_name (out st') = map line_name (out st) @ map fst (filter marked entries)"
proof (induction entries arbitrary: st)
  case Nil
  then show ?case by simp
next
  case (Cons a entries)
  obtain n e where a: "a = (n, e)" by (cases a)
  have prem: "load_initial_llms_loop w ((n, e) # entries) st = Inr st'"
    using Cons.prems a by simp
  have "map line_name (out st') = map line_name (out st) @ map fst (filter marked ((n, e) # entries))"
    using prem
  proof (cases rule: loop_Cons_cases)
    case skip
    with Cons.IH[OF skip(2)] show ?thesis by (simp add: marked_pair)
  next
    case (loaded inst st1)
    have "out st1 = out st" using load_llm_frame[of w n st] loaded by simp
    with Cons.IH[OF loaded(3)] loaded(1) show ?thesis by (simp add: marked_pair)
  next
    case (failed err st1)
    have "out st1 = out st" using load_llm_frame[of w n st] failed by simp
    with Cons.IH[OF failed(3)] failed(1) show ?thesis by (simp add: marked_pair)
  qed
  then show ?case by (simp add: a)
qed

text \<open>An entry reported as loaded is in the cache.\<close>

lemma loop_loaded:
  "load_initial_llms_loop w entries st = Inr st' \<Longrightarrow> PrintLoaded m \<in> set (out st') \<Longrightarrow>
   PrintLoaded m \<in> set (out st) \<or> llm_instances st' m \<noteq> None"
proof (induction entries arbitrary: st)
  case Nil
  then show ?case by simp
next
  case (Cons a entries)
  obtain n e where a: "a = (n, e)" by (cases a)
  from Cons.prems(1) show ?case unfolding a
  proof (cases rule: loop_Cons_cases)
    case skip
    from Cons.IH[OF skip(2) Cons.prems(2)] show ?thesis .
  next
    case (loaded inst st1)
    have o: "out st1 = out st" using load_llm_frame[of w n st] loaded by simp
    have c: "llm_instances (st1\<lparr>out := out st1 @ [PrintLoaded n]\<rparr>) n = Some inst"
      using load_llm_success_cached[OF loaded(2)] by simp
    from Cons.IH[OF loaded(3) Cons.prems(2)] o loop_keeps[OF c loaded(3)]
    show ?thesis by auto
  next
    case (failed err st1)
    have o: "out st1 = out st" using load_llm_frame[of w n st] failed by simp
    from Cons.IH[OF failed(3) Cons.prems(2)] o show ?thesis by auto
  qed
qed

lemma llms_config_entries: "llms_config st = entries_of (config st)"
  by (simp add: llms_config_def entries_of_def)

text \<open>
  The loop ends without an exception exactly when every flag that is present is a
  string; otherwise it raises the AttributeError of the first flag that is not.
\<close>

lemma flagged_string: "string_flag e \<Longrightarrow> \<exists>b. flagged e = Inr b"
  by (auto simp: flagged_def split: option.splits json.splits)

lemma flagged_other: "\<not> string_flag e \<Longrightarrow> \<exists>v. flagged e = Inl (no_lower v)"
  by (auto simp: flagged_def split: option.splits json.splits)

lemma loop_total:
  "string_flags entries \<Longrightarrow> \<exists>st'. load_initial_llms_loop w entries st = Inr st'"
proof (induction entries arbitrary: st)
  case Nil
  then show ?case by simp
next
  case (Cons a entries)
  obtain n e where a: "a = (n, e)" by (cases a)
  from Cons.prems a have s: "string_flag e" and rest: "string_flags entries"
    by (simp_all add: string_flags_def)
  from flagged_string[OF s] obtain b where b: "flagged e = Inr b" by blast
  obtain r st1 where r: "load_llm w n st = (r, st1)" by (cases "load_llm w n st")
  show ?case
  proof (cases b)
    case False
    with a b Cons.IH[OF rest, of st] show ?thesis by simp
  next
    case True
    show ?thesis
    proof (cases r)
      case (Inl err)
      with a b r True Cons.IH[OF rest, of "st1\<lparr>out := out st1 @ [PrintFailed n (str_of err)]\<rparr>"]
      show ?thesis by simp
    next
      case (Inr inst)
      with a b r True Cons.IH[OF rest, of "st1\<lparr>out := out st1 @ [PrintLoaded n]\<rparr>"]
      show ?thesis by simp
    qed
  qed
qed

lemma loop_fatal:
  "\<not> string_flags entries \<Longrightarrow> \<exists>v. load_initial_llms_loop w entries st = Inl (no_lower v)"
proof (induction entries arbitrary: st)
  case Nil
  then show ?case by (simp add: string_flags_def)
next
  case (Cons a entries)
  obtain n e where a: "a = (n, e)" by (cases a)
  show ?case
  proof (cases "string_flag e")
    case False
    from flagged_other[OF False] a show ?thesis by auto
  next
    case True
    with Cons.prems a have rest: "\<not> string_flags entries" by (simp add: string_flags_def)
    from flagged_string[OF True] obtain b where b: "flagged e = Inr b" by blast
    obtain r st1 where r: "load_llm w n st = (r, st1)" by (cases "load_llm w n st")
    show ?thesis
    proof (cases b)
      case False
      with a b Cons.IH[OF rest, of st] show ?thesis by simp
    next
      case True
      show ?thesis
      proof (cases r)
        case (Inl err)
        with a b r True Cons.IH[OF rest, of "st1\<lparr>out := out st1 @ [PrintFailed n (str_of err)]\<rparr>"]
        show ?thesis by simp
      next
        case (Inr inst)
        with a b r True Cons.IH[OF rest, of "st1\<lparr>out := out st1 @ [PrintLoaded n]\<rparr>"]
        show ?thesis by simp
      qed
    qed
  qed
qed

text \<open>
  With string flags, creating the loader succeeds whenever the configuration file loads,
  whatever the import system, the constructors and the environment do: every marked
  entry is tried, in order, and leaves exactly one printed line, and an entry printed as
  loaded is in the cache.
\<close>

lemma init_with_string_flags:
  assumes "load_json w path = Inr cfg" and "string_flags (entries_of cfg)"
  shows "\<exists>st. LLMConfigLoader w path = Inr st \<and> config st = cfg
           \<and> map line_name (out st) = map fst (filter marked (entries_of cfg))
           \<and> (\<forall>n. PrintLoaded n \<in> set (out st) \<longrightarrow> llm_instances st n \<noteq> None)"
proof -
  let ?fresh = "\<lparr>config_path = path, config = cfg, llm_instances = Map.empty,
               trace = [], out = [], next_id = 0\<rparr>"
  from loop_total[OF assms(2), of w ?fresh]
  obtain st where st: "load_initial_llms_loop w (entries_of cfg) ?fresh = Inr st" by blast
  have "LLMConfigLoader w path = Inr st"
    using assms(1) st by (simp add: LLMConfigLoader_def load_initial_llms_def llms_config_entries)
  moreover have "config st = cfg" using loop_config[OF st] by simp
  moreover have "map line_name (out st) = map fst (filter marked (entries_of cfg))"
    using loop_lines[OF st] by simp
  moreover have "\<forall>n. PrintLoaded n \<in> set (out st) \<longrightarrow> llm_instances st n \<noteq> None"
    using loop_loaded[OF st] by auto
  ultimately show ?thesis by blast
qed

lemma init_with_string_flags_example:
  "LLMConfigLoader bare_py ''config/llm.json'' = Inr started_loader
   \<and> string_flags (entries_of demo_registry)
   \<and> map fst (filter marked (entries_of demo_registry)) = [''openai'', ''local'']"
  by (simp add: loader_eval started_loader_def local_llm_def entries_of_def string_flags_def marked_def)

text \<open>A flag that is no string is fatal, whatever else the registry holds.\<close>

lemma init_with_other_flag:
  assumes "load_json w path = Inr cfg" and "\<not> string_flags (entries_of cfg)"
  shows "\<exists>v. LLMConfigLoader w path = Inl (no_lower v)"
  using assms loop_fatal[OF assms(2)]
  by (simp add: LLMConfigLoader_def load_initial_llms_def llms_config_entries)

text \<open>
  C6. Every entry whose flag is set should be constructed when the loader is created, and
  creating the loader should never fail on such an entry. The code lowers the flag before
  its \<^verbatim>\<open>try\<close>: for the entry \<^verbatim>\<open>local\<close> with \<^verbatim>\<open>"load_on_init": true\<close>, where import
  and constructor would succeed, \<^verbatim>\<open>__init__\<close> raises AttributeError and no loader
  exists; with the string \<^verbatim>\<open>"true"\<close> the same entry is loaded.
\<close>

theorem init_boolean_flag_fatal:
  "LLMConfigLoader boolean_py ''config/llm.json'' =
     Inl (AttributeError ([CHR 0x27] @ ''bool'' @ [CHR 0x27] @ '' object has no attribute ''
            @ [CHR 0x27] @ ''lower'' @ [CHR 0x27]))
   \<and> map_sum id out (LLMConfigLoader string_py ''config/llm.json'') = Inr [PrintLoaded ''local'']
   \<and> map_sum id (\<lambda>st. llm_instances st ''local'') (LLMConfigLoader string_py ''config/llm.json'') =
       Inr (Some local_llm)"
  by (simp add: loader_eval boolean_py_def boolean_registry_def string_py_def string_registry_def
      no_lower_def local_llm_def)

section \<open>Properties of the document processor\<close>

text \<open>
  C7. The loader for a file is decided by the lowered suffix of its path alone: each of
  the nine supported extensions calls its fixed loader class on the path, and any other
  suffix raises ValueError with a message that lists the nine extensions.
\<close>

theorem get_loader_for_file_table:
  "get_loader_for_file w p =
     (let ext = lower (path_suffix p);
          make = (\<lambda>c. case loader_init_raises w c p of Some e \<Rightarrow> Inl e | None \<Rightarrow> Inr (Loader c p))
      in if ext = ''.pdf'' then make PyPDFLoader
         else if ext = ''.docx'' \<or> ext = ''.doc'' then make Docx2txtLoader
         else if ext = ''.html'' \<or> ext = ''.htm'' then make UnstructuredHTMLLoader
         else if ext = ''.csv'' then make CSVLoader
         else if ext = ''.xlsx'' \<or> ext = ''.xls'' then make UnstructuredExcelLoader
         else if ext = ''.txt'' then make TextLoader
         else Inl (ValueError (''Unsupported file type: '' @ ext
                @ ''. Supported types: .pdf, .docx, .doc, .html, .htm, .csv, .xlsx, .xls, .txt'')))"
  by (simp add: get_loader_for_file_def loader_mapping_def Let_def)

theorem get_loader_for_file_table_witness:
  "get_loader_for_file quiet_docs ''/data/Report.PDF'' = Inr (Loader PyPDFLoader ''/data/Report.PDF'')
   \<and> get_loader_for_file quiet_docs ''notes.md'' =
       Inl (ValueError ''Unsupported file type: .md. Supported types: .pdf, .docx, .doc, .html, .htm, .csv, .xlsx, .xls, .txt'')"
proof -
  have a: "lower (path_suffix ''/data/Report.PDF'') = ''.pdf''"
    by (simp add: lower_def lower_char_def path_suffix_def path_name_def path_parts_def startswith_def)
  have b: "lower (path_suffix ''notes.md'') = ''.md''"
    by (simp add: lower_def lower_char_def path_suffix_def path_name_def path_parts_def startswith_def)
  show ?thesis
    using get_loader_for_file_table [of quiet_docs "''/data/Report.PDF''"]
      get_loader_for_file_table [of quiet_docs "''notes.md''"]
    unfolding a b by (simp add: quiet_docs_def)
qed

text \<open>
  A name that is only an extension has no suffix, and only the last suffix counts.
\<close>

lemma path_suffix_examples:
  "path_suffix ''/data/.txt'' = []"
  "path_suffix ''archive.tar.gz'' = ''.gz''"
  "path_suffix ''docs/b.txt/'' = ''.txt''"
  by (simp_all add: path_suffix_def path_name_def path_parts_def startswith_def)




section \<open>Properties of the vector store manager\<close>

text \<open>
  C10. Adding no documents returns the empty list and leaves the manager as it is. Adding
  documents to a manager without a store creates the store and returns the empty list,
  not the ids of the documents. Adding documents to a manager with a store returns the
  ids the store gives for them.
\<close>

theorem add_documents_ids:
  "add_documents w [] self = (Inr [], self)
   \<and> (documents \<noteq> [] \<longrightarrow> vectorstore self = None \<longrightarrow>
        chroma_from_documents w documents (persist_directory self) (collection_name self) = Inr vs \<longrightarrow>
        (has_persist w \<longrightarrow> persist_raises w vs = None) \<longrightarrow>
        add_documents w documents self = (Inr [], self\<lparr>vectorstore := Some vs\<rparr>))
   \<and> (documents \<noteq> [] \<longrightarrow> vectorstore self = Some old_vs \<longrightarrow>
        chroma_add_documents w old_vs documents = (Inr ids, new_vs) \<longrightarrow>
        add_documents w documents self = (Inr ids, self\<lparr>vectorstore := Some new_vs\<rparr>))"
  by (auto simp: add_documents_def Let_def)

theorem add_documents_ids_witness:
  "add_documents demo_store [] demo_manager = (Inr [], demo_manager)
   \<and> add_documents demo_store [doc_a] demo_manager =
       (Inr [], demo_manager\<lparr>vectorstore := Some (Chroma [(''id-hello world'', doc_a)])\<rparr>)
   \<and> add_documents demo_store [doc_a] (demo_manager\<lparr>vectorstore := Some (Chroma [])\<rparr>) =
       (Inr [''id-hello world''], demo_manager\<lparr>vectorstore := Some (Chroma [(''id-hello world'', doc_a)])\<rparr>)"
  using add_documents_ids [where w = demo_store and self = demo_manager and documents = "[doc_a]"
      and vs = "Chroma [(''id-hello world'', doc_a)]"]
    add_documents_ids [where w = demo_store and self = "demo_manager\<lparr>vectorstore := Some (Chroma [])\<rparr>"
      and documents = "[doc_a]" and old_vs = "Chroma []" and ids = "[''id-hello world'']"
      and new_vs = "Chroma [(''id-hello world'', doc_a)]"]
  by (simp add: demo_store_def demo_manager_def doc_a_def)

section \<open>Properties of the conversational chain\<close>

lemma ensure_chain_memory: "memory (ensure_chain w self) = memory self"
  by (simp add: ensure_chain_def initialize_chain_def split: sum.splits option.splits)

lemma ensure_chain_llm_calls: "llm_calls (ensure_chain w self) = llm_calls self"
  by (simp add: ensure_chain_def initialize_chain_def split: sum.splits option.splits)

lemma ensure_chain_ready: "chain_obj self = Some c \<Longrightarrow> ensure_chain w self = self"
  by (simp add: ensure_chain_def)

text \<open>
  Without a chain, and with no way to build one (there is no store object, or building
  the chain raises), a chat request returns the fixed answer with no source documents,
  calls no LLM client and leaves the chatbot as it is.
\<close>

lemma chat_without_chain:
  assumes "chain_obj self = None"
    and "vectorstore (vector_store self) = None \<or> from_llm_raises w \<noteq> None"
  shows "chat w question self =
           (\<lparr>answer = ''I don'' @ [CHR 0x27]
                @ ''t have any documents to answer questions from. Please upload documents first.'',
             source_documents = []\<rparr>, self)
         \<and> llm_calls (snd (chat w question self)) = llm_calls self"
  using assms
  by (auto simp: chat_def ensure_chain_def initialize_chain_def get_retriever_def Let_def
      no_documents_answer_def split: option.splits)

lemma chat_without_chain_example:
  "chat echo_world ''What is in the report?'' demo_chatbot =
       (\<lparr>answer = no_documents_answer, source_documents = []\<rparr>, demo_chatbot)
   \<and> llm_calls (snd (chat echo_world ''What is in the report?'' demo_chatbot)) = 0"
proof -
  have a: "chain_obj demo_chatbot = None" by (simp add: demo_chatbot_def)
  have b: "vectorstore (vector_store demo_chatbot) = None \<or> from_llm_raises echo_world \<noteq> None"
    by (simp add: demo_chatbot_def demo_manager_def)
  have c: "llm_calls demo_chatbot = 0" by (simp add: demo_chatbot_def)
  show ?thesis
    using chat_without_chain [OF a b, of "''What is in the report?''"] c
    by (simp add: no_documents_answer_def)
qed

text \<open>
  With a store object, the chain is built and invoked whatever the store holds.
\<close>

lemma chat_with_store:
  assumes "vectorstore (vector_store self) = Some vs" and "from_llm_raises w = None"
    and "chain_obj self = None"
  shows "\<exists>c. chain_obj (ensure_chain w self) = Some c
           \<and> llm_calls (snd (chat w question self)) =
               llm_calls self + snd (snd (invoke w c (memory self) question))"
  using assms
  by (auto simp: chat_def ensure_chain_def initialize_chain_def get_retriever_def Let_def
      split: prod.splits sum.splits)

text \<open>
  C4. A chat request with no documents indexed should return the fixed answer without a
  call to the LLM client. The code gives the fixed answer only when there is no chain
  and none can be built, and a chain can be built on any store object. When the persist
  directory exists and holds no documents, the manager has a store with 0 documents, the
  chain is built at creation, or by the request when the first attempt failed, and the
  request invokes the chain: the LLM client is called and the answer is the chain's.
\<close>

theorem chat_without_documents_invokes_llm:
  "VectorStoreManager empty_dir ''./chroma_db'' ''rag_documents'' = Inr empty_manager
   \<and> get_collection_count empty_manager = 0
   \<and> chain_obj (RAGChatbot echo_world demo_llm empty_manager ''chat_history'' True 3000 False) = Some demo_chain
   \<and> fst (chat echo_world ''q'' (RAGChatbot echo_world demo_llm empty_manager ''chat_history'' True 3000 False))
       = \<lparr>answer = ''echo: q'', source_documents = []\<rparr>
   \<and> llm_calls (snd (chat echo_world ''q''
         (RAGChatbot echo_world demo_llm empty_manager ''chat_history'' True 3000 False))) = 2
   \<and> chain_obj (RAGChatbot flaky_world demo_llm empty_manager ''chat_history'' True 3000 False) = None
   \<and> fst (chat echo_world ''q'' (RAGChatbot flaky_world demo_llm empty_manager ''chat_history'' True 3000 False))
       = \<lparr>answer = ''echo: q'', source_documents = []\<rparr>
   \<and> llm_calls (snd (chat echo_world ''q''
         (RAGChatbot flaky_world demo_llm empty_manager ''chat_history'' True 3000 False))) = 2"
  by (simp add: VectorStoreManager_def initialize_vectorstore_def empty_dir_def empty_manager_def
      demo_manager_def get_collection_count_def RAGChatbot_def
      initialize_chain_def get_retriever_def chat_def ensure_chain_def Let_def echo_world_def
      flaky_world_def demo_chain_def demo_llm_def)

text \<open>
  C5. When the chatbot has a chain, or builds one for the request, and invoking the
  chain raises, the request returns the answer \<^verbatim>\<open>An error occurred: \<close> followed by the
  text of the exception with no source documents; the chain stays in place, and a later
  request whose invocation succeeds gets its answer.
\<close>

theorem chat_invoke_error:
  assumes "chain_obj (ensure_chain w self) = Some c"
    and "invoke w c (memory self) question = (Inl e, m, n)"
  shows "fst (chat w question self) = \<lparr>answer = ''An error occurred: '' @ str_of e, source_documents = []\<rparr>
         \<and> chain_obj (snd (chat w question self)) = Some c
         \<and> (\<forall>w' question' resp m' n'.
               invoke w' c m question' = (Inr resp, m', n') \<longrightarrow>
               fst (chat w' question' (snd (chat w question self))) =
                 \<lparr>answer = (case resp_answer resp of None \<Rightarrow> [] | Some a \<Rightarrow> a),
                  source_documents = (case resp_source_documents resp of None \<Rightarrow> [] | Some d \<Rightarrow> d)\<rparr>)"
proof -
  let ?self1 = "ensure_chain w self"
  have r: "chat w question self =
             (\<lparr>answer = ''An error occurred: '' @ str_of e, source_documents = []\<rparr>,
              ?self1\<lparr>memory := m, llm_calls := llm_calls ?self1 + n\<rparr>)"
    using assms by (simp add: chat_def Let_def ensure_chain_memory)
  have k: "chain_obj (?self1\<lparr>memory := m, llm_calls := llm_calls ?self1 + n\<rparr>) = Some c"
    using assms(1) by simp
  show ?thesis
    unfolding r using k by (simp add: chat_def Let_def ensure_chain_ready)
qed

theorem chat_invoke_error_witness:
  "chain_obj (ensure_chain down_world ready_chatbot) = Some demo_chain
   \<and> invoke down_world demo_chain (memory ready_chatbot) ''hello'' =
       (Inl (OtherException ''connection refused''), demo_memory, 1)
   \<and> fst (chat down_world ''hello'' ready_chatbot) =
        \<lparr>answer = ''An error occurred: connection refused'', source_documents = []\<rparr>
   \<and> chain_obj (snd (chat down_world ''hello'' ready_chatbot)) = Some demo_chain
   \<and> fst (chat echo_world ''again'' (snd (chat down_world ''hello'' ready_chatbot))) =
        \<lparr>answer = ''echo: again'', source_documents = []\<rparr>"
proof -
  have a: "chain_obj (ensure_chain down_world ready_chatbot) = Some demo_chain"
    by (simp add: ensure_chain_def ready_chatbot_def)
  have b: "invoke down_world demo_chain (memory ready_chatbot) ''hello'' =
             (Inl (OtherException ''connection refused''), demo_memory, 1)"
    by (simp add: ready_chatbot_def down_world_def demo_chatbot_def)
  have c: "invoke echo_world demo_chain demo_memory ''again'' =
             (Inr \<lparr>resp_answer = Some ''echo: again'', resp_source_documents = Some []\<rparr>,
              demo_memory\<lparr>messages := messages demo_memory @ [\<lparr>msg_type = Some ''human'', content = ''again''\<rparr>,
                                                       \<lparr>msg_type = Some ''ai'', content = ''echo: again''\<rparr>]\<rparr>, 2)"
    by (simp add: echo_world_def)
  from chat_invoke_error [OF a b] c a b show ?thesis
    by auto
qed

text \<open>
  C9. After \<^verbatim>\<open>clear_memory\<close> the history is empty, whatever chat turns came before, and
  nothing but the messages of the memory has changed: the chain, the vector store
  manager, the LLM and every other attribute are the ones from before.
\<close>

theorem clear_memory_frame:
  "get_chat_history (clear_memory (chat_all turns self)) = []
   \<and> messages (memory (clear_memory st)) = []
   \<and> chain_obj (clear_memory st) = chain_obj st
   \<and> vector_store (clear_memory st) = vector_store st
   \<and> llm (clear_memory st) = llm st
   \<and> memory_key (clear_memory st) = memory_key st
   \<and> return_source_documents (clear_memory st) = return_source_documents st
   \<and> verbose (clear_memory st) = verbose st
   \<and> llm_calls (clear_memory st) = llm_calls st
   \<and> clear_memory st = st\<lparr>memory := (memory st)\<lparr>messages := []\<rparr>\<rparr>"
  by (simp add: clear_memory_def get_chat_history_def memory_clear_def)

theorem clear_memory_frame_witness:
  "get_chat_history (chat_all [(echo_world, ''a''), (echo_world, ''b'')] ready_chatbot) =
     [(''human'', ''a''), (''ai'', ''echo: a''), (''human'', ''b''), (''ai'', ''echo: b'')]
   \<and> get_chat_history (clear_memory (chat_all [(echo_world, ''a''), (echo_world, ''b'')] ready_chatbot)) = []
   \<and> chain_obj (clear_memory ready_chatbot) = Some demo_chain"
  using clear_memory_frame [of "[(echo_world, ''a''), (echo_world, ''b'')]" ready_chatbot ready_chatbot]
  by (simp add: chat_def ensure_chain_def get_chat_history_def ready_chatbot_def demo_chatbot_def
      echo_world_def demo_memory_def Let_def)

end
